theory Spec2Isabelle
  imports Complex_Main
begin

section \<open>Breast cancer prediction service: the request pipeline of app.py\<close>

text \<open>
  The development embeds the three pieces of \<^verbatim>\<open>app.py\<close> that carry decision logic:
  the module-level model load (lines 17-35), the \<^verbatim>\<open>/api/predict\<close> handler
  (lines 56-122) and the \<^verbatim>\<open>/api/info\<close> handler (lines 125-133).

  Conventions of the embedding.
  \<^item> A Python exception is a value of type \<open>exn\<close>; a computation that may raise returns
    \<open>exn + 'a\<close> with \<open>Inl\<close> for the exception, and every \<^verbatim>\<open>try/except\<close> of the
    source is a case distinction on that sum.
  \<^item> Python floats are modelled as exact reals: there is no rounding error, no NaN and
    no infinity in arithmetic, where the program multiplies and rounds IEEE doubles. The
    confidence of the model can therefore differ from the program's in the last digit
    that is kept, and the theorems about the confidence state only bounds that hold for
    both. The three non-finite literals that Python's JSON parser accepts are separate
    constructors of the JSON type.
  \<^item> The collaborators that are not part of the repository are parameters: the parsed
    request body (\<^verbatim>\<open>request.get_json()\<close>), the array constructor
    (\<^verbatim>\<open>np.array(features).reshape(1, -1)\<close>), the file system probe and
    \<^verbatim>\<open>joblib.load\<close>, and the classifier object itself.
  \<^item> The classifier is an opaque Python object. Its methods are state transformers
    on an internal state of the object, so that nothing about hidden state or hidden
    randomness is assumed by the model.
\<close>

subsection \<open>JSON values as Python objects\<close>

datatype json =
    JNull
  | JBool bool
  | JInt int
  | JFloat real
  | JNaN
  | JInfinity
  | JNegInfinity
  | JString string
  | JArray "json list"
  | JObject "(string \<times> json) list"

text \<open>
  \<open>JObject\<close> holds the items of the Python dict in insertion order; the keys of a
  dict are distinct.
\<close>

text \<open>Truth value of an object, as used by \<^verbatim>\<open>not data\<close>.\<close>

fun truthy :: "json \<Rightarrow> bool" where
  "truthy JNull = False"
| "truthy (JBool b) = b"
| "truthy (JInt n) = (n \<noteq> 0)"
| "truthy (JFloat x) = (x \<noteq> 0)"
| "truthy JNaN = True"
| "truthy JInfinity = True"
| "truthy JNegInfinity = True"
| "truthy (JString s) = (s \<noteq> [])"
| "truthy (JArray xs) = (xs \<noteq> [])"
| "truthy (JObject kvs) = (kvs \<noteq> [])"

fun type_name :: "json \<Rightarrow> string" where
  "type_name JNull = ''NoneType''"
| "type_name (JBool b) = ''bool''"
| "type_name (JInt n) = ''int''"
| "type_name (JFloat x) = ''float''"
| "type_name JNaN = ''float''"
| "type_name JInfinity = ''float''"
| "type_name JNegInfinity = ''float''"
| "type_name (JString s) = ''str''"
| "type_name (JArray xs) = ''list''"
| "type_name (JObject kvs) = ''dict''"

subsection \<open>Exceptions\<close>

text \<open>
  The exceptions that the handler's own expressions can raise, and \<open>Raised\<close> for an
  exception coming out of a collaborator, which carries its \<^verbatim>\<open>str(e)\<close>.
\<close>

datatype exn =
    NotIterable string
  | ListIndexNotInt
  | StrIndexNotInt
  | KeyMissing string
  | NotSubscriptable string
  | NoLen string
  | IndexOutOfBounds
  | EmptyMax
  | Raised string

text \<open>\<^verbatim>\<open>str(e)\<close>, in the wording of CPython 3.10 and NumPy.\<close>

fun str_e :: "exn \<Rightarrow> string" where
  "str_e (NotIterable t) = ''argument of type '' @ [CHR 0x27] @ t @ [CHR 0x27] @ '' is not iterable''"
| "str_e ListIndexNotInt = ''list indices must be integers or slices, not str''"
| "str_e StrIndexNotInt = ''string indices must be integers''"
| "str_e (KeyMissing k) = [CHR 0x27] @ k @ [CHR 0x27]"
| "str_e (NotSubscriptable t) = [CHR 0x27] @ t @ [CHR 0x27] @ '' object is not subscriptable''"
| "str_e (NoLen t) = ''object of type '' @ [CHR 0x27] @ t @ [CHR 0x27] @ '' has no len()''"
| "str_e IndexOutOfBounds = ''index 0 is out of bounds for axis 0 with size 0''"
| "str_e EmptyMax = ''max() arg is an empty sequence''"
| "str_e (Raised msg) = msg"

subsection \<open>The Python operations the handler applies to the request body\<close>

text \<open>\<^verbatim>\<open>p in s\<close> on strings: \<open>p\<close> occurs in \<open>s\<close> as a contiguous block.\<close>

fun is_substring :: "string \<Rightarrow> string \<Rightarrow> bool" where
  "is_substring p [] = (p = [])"
| "is_substring p (c # cs) = (take (length p) (c # cs) = p \<or> is_substring p cs)"

text \<open>\<^verbatim>\<open>'features' in data\<close>: key membership on a dict, element membership on a
  list, substring test on a string, \<^verbatim>\<open>TypeError\<close> on everything else.\<close>

fun contains_features :: "json \<Rightarrow> exn + bool" where
  "contains_features (JObject kvs) = Inr (''features'' \<in> set (map fst kvs))"
| "contains_features (JArray xs) = Inr (JString ''features'' \<in> set xs)"
| "contains_features (JString s) = Inr (is_substring ''features'' s)"
| "contains_features v = Inl (NotIterable (type_name v))"

text \<open>\<^verbatim>\<open>data['features']\<close>.\<close>

fun getitem_features :: "json \<Rightarrow> exn + json" where
  "getitem_features (JObject kvs) =
     (case map_of kvs ''features'' of
        None \<Rightarrow> Inl (KeyMissing ''features'')
      | Some v \<Rightarrow> Inr v)"
| "getitem_features (JArray xs) = Inl ListIndexNotInt"
| "getitem_features (JString s) = Inl StrIndexNotInt"
| "getitem_features v = Inl (NotSubscriptable (type_name v))"

text \<open>\<^verbatim>\<open>len(features)\<close>.\<close>

fun py_len :: "json \<Rightarrow> exn + nat" where
  "py_len (JArray xs) = Inr (length xs)"
| "py_len (JString s) = Inr (length s)"
| "py_len (JObject kvs) = Inr (length kvs)"
| "py_len v = Inl (NoLen (type_name v))"

text \<open>The decimal rendering of a length inside an f-string.\<close>

function show_nat :: "nat \<Rightarrow> string" where
  "show_nat n =
     (if n < 10 then [''0123456789'' ! n]
      else show_nat (n div 10) @ [''0123456789'' ! (n mod 10)])"
  by pat_completeness auto
termination
  by (relation "measure id") auto

declare show_nat.simps [simp del]

text \<open>\<^verbatim>\<open>max(probabilities)\<close>: raises on an empty row, otherwise the running maximum.\<close>

fun py_max :: "real list \<Rightarrow> exn + real" where
  "py_max [] = Inl EmptyMax"
| "py_max (p # ps) = Inr (fold max ps p)"

text \<open>
  \<^verbatim>\<open>round(confidence, 2)\<close> on exact numbers: the nearest multiple of 0.01, a tie going
  to the even hundredth. The program applies it to the double that the multiplication by
  100 gave and returns the nearest double.
\<close>

definition py_round2 :: "real \<Rightarrow> real" where
  "py_round2 x =
     (let y = x * 100; f = \<lfloor>y\<rfloor>; d = y - of_int f
      in of_int (if d < 1 / 2 then f
                 else if 1 / 2 < d then f + 1
                 else if even f then f else f + 1) / 100)"

subsection \<open>The classifier object and the responses\<close>

text \<open>
  A loaded model: \<^verbatim>\<open>model.predict\<close> is always there, \<^verbatim>\<open>model.predict_proba\<close>
  may be missing (\<^verbatim>\<open>hasattr\<close>). Each method gets the object's current state and the
  array, and returns what the call returns or raises together with the state it leaves
  behind. \<^verbatim>\<open>predict\<close> returns the array of class labels, \<^verbatim>\<open>predict_proba\<close> the
  rows of class probabilities. Class labels are integers, so \<^verbatim>\<open>int(prediction)\<close> is the
  label itself and \<^verbatim>\<open>prediction == 1\<close> is equality of integers.
\<close>

record ('x, 's) classifier =
  obj_state :: 's
  predict_method :: "'s \<Rightarrow> 'x \<Rightarrow> (exn + int list) \<times> 's"
  predict_proba_method :: "('s \<Rightarrow> 'x \<Rightarrow> (exn + real list list) \<times> 's) option"

text \<open>
  What \<^verbatim>\<open>jsonify\<close> is given: an error object, or the object with the keys
  \<^verbatim>\<open>diagnosis\<close>, \<^verbatim>\<open>confidence\<close> and \<^verbatim>\<open>prediction\<close>. A response is the body with
  its HTTP status.
\<close>

datatype body =
    ErrorJson string
  | PredictionJson string real int

type_synonym response = "body \<times> nat"

text \<open>The \<^verbatim>\<open>confidence\<close> entry of a response, when it has one, and its HTTP status.\<close>

fun response_confidence :: "response \<Rightarrow> real option" where
  "response_confidence (PredictionJson d c p, st) = Some c"
| "response_confidence (ErrorJson msg, st) = None"

fun response_status :: "response \<Rightarrow> nat" where
  "response_status (b, st) = st"

definition invalid_request :: response where
  \<open>invalid_request = (ErrorJson ''Invalid request. Expected "features" array.'', 400)\<close>

definition wrong_count :: "nat \<Rightarrow> response" where
  "wrong_count n = (ErrorJson (''Expected 8 features, got '' @ show_nat n), 400)"

definition model_not_loaded :: response where
  "model_not_loaded =
     (ErrorJson ''Model not loaded. Please check server configuration.'', 500)"

definition invalid_values :: "exn \<Rightarrow> response" where
  "invalid_values e = (ErrorJson (''Invalid feature values: '' @ str_e e), 400)"

definition prediction_error :: "exn \<Rightarrow> response" where
  "prediction_error e = (ErrorJson (''Prediction error: '' @ str_e e), 500)"

definition server_error :: "exn \<Rightarrow> response" where
  "server_error e = (ErrorJson (''Server error: '' @ str_e e), 500)"

text \<open>Lines 105-112: the diagnosis mapping and the success object, status 200.\<close>

definition success :: "int \<Rightarrow> real \<Rightarrow> response" where
  "success prediction confidence =
     (PredictionJson (if prediction = 1 then ''Malignant'' else ''Benign'')
        (py_round2 confidence) prediction, 200)"

subsection \<open>The prediction handler\<close>

text \<open>
  Lines 94-112, the body of the inner \<^verbatim>\<open>try\<close>: the two calls on the model, the
  two \<^verbatim>\<open>[0]\<close> subscripts and \<^verbatim>\<open>max\<close>. The result is the response or the
  exception raised, and the model object as the calls left it.
\<close>

definition inference ::
  "('x, 's) classifier \<Rightarrow> 'x \<Rightarrow> (exn + response) \<times> ('x, 's) classifier" where
  "inference m X =
     (case predict_method m (obj_state m) X of
        (Inl e, s1) \<Rightarrow> (Inl e, m\<lparr>obj_state := s1\<rparr>)
      | (Inr preds, s1) \<Rightarrow>
          (case preds of
             [] \<Rightarrow> (Inl IndexOutOfBounds, m\<lparr>obj_state := s1\<rparr>)
           | prediction # _ \<Rightarrow>
               (case predict_proba_method m of
                  None \<Rightarrow> (Inr (success prediction 100), m\<lparr>obj_state := s1\<rparr>)
                | Some proba \<Rightarrow>
                    (case proba s1 X of
                       (Inl e, s2) \<Rightarrow> (Inl e, m\<lparr>obj_state := s2\<rparr>)
                     | (Inr rows, s2) \<Rightarrow>
                         (case rows of
                            [] \<Rightarrow> (Inl IndexOutOfBounds, m\<lparr>obj_state := s2\<rparr>)
                          | probabilities # _ \<Rightarrow>
                              (case py_max probabilities of
                                 Inl e \<Rightarrow> (Inl e, m\<lparr>obj_state := s2\<rparr>)
                               | Inr mx \<Rightarrow>
                                   (Inr (success prediction (mx * 100)),
                                    m\<lparr>obj_state := s2\<rparr>)))))))"

text \<open>
  Lines 64-117, the body of the outer \<^verbatim>\<open>try\<close>. \<open>np\<close> stands for
  \<^verbatim>\<open>np.array(features).reshape(1, -1)\<close>, \<open>model\<close> for the module-level variable and
  \<open>req\<close> for the outcome of \<^verbatim>\<open>request.get_json()\<close>. \<open>Inl\<close> is an exception that
  reaches the outer \<^verbatim>\<open>except\<close>.
\<close>

definition predict_try ::
  "(json \<Rightarrow> exn + 'x) \<Rightarrow> ('x, 's) classifier option \<Rightarrow> exn + json
     \<Rightarrow> exn + (response \<times> ('x, 's) classifier option)" where
  "predict_try np model req =
     (case req of
        Inl e \<Rightarrow> Inl e
      | Inr data \<Rightarrow>
          if \<not> truthy data then Inr (invalid_request, model)
          else
            (case contains_features data of
               Inl e \<Rightarrow> Inl e
             | Inr False \<Rightarrow> Inr (invalid_request, model)
             | Inr True \<Rightarrow>
                 (case getitem_features data of
                    Inl e \<Rightarrow> Inl e
                  | Inr features \<Rightarrow>
                      (case py_len features of
                         Inl e \<Rightarrow> Inl e
                       | Inr n \<Rightarrow>
                           if n \<noteq> 8 then Inr (wrong_count n, model)
                           else
                             (case model of
                                None \<Rightarrow> Inr (model_not_loaded, model)
                              | Some m \<Rightarrow>
                                  (case np features of
                                     Inl e \<Rightarrow> Inr (invalid_values e, model)
                                   | Inr X \<Rightarrow>
                                       (case inference m X of
                                          (Inl e, m') \<Rightarrow> Inr (prediction_error e, Some m')
                                        | (Inr r, m') \<Rightarrow> Inr (r, Some m'))))))))"

text \<open>
  Lines 57-122: the handler with its outermost \<^verbatim>\<open>except\<close>. It returns the
  response and the model object as the request left it.
\<close>

definition predict ::
  "(json \<Rightarrow> exn + 'x) \<Rightarrow> ('x, 's) classifier option \<Rightarrow> exn + json
     \<Rightarrow> response \<times> ('x, 's) classifier option" where
  "predict np model req =
     (case predict_try np model req of
        Inl e \<Rightarrow> (server_error e, model)
      | Inr r \<Rightarrow> r)"

subsection \<open>The model load at start-up and the info handler\<close>

text \<open>
  The file system probe \<^verbatim>\<open>Path.exists()\<close> and \<^verbatim>\<open>joblib.load\<close>, both of which may
  raise. Paths are relative to the directory of \<^verbatim>\<open>app.py\<close>.
\<close>

record ('x, 's) filesystem =
  path_exists :: "string \<Rightarrow> exn + bool"
  joblib_load :: "string \<Rightarrow> exn + ('x, 's) classifier"

definition MODEL_PATH :: string where
  "MODEL_PATH = ''model/breast_cancer_model.pkl''"

definition root_model :: string where
  "root_model = ''model.pkl''"

text \<open>The line printed by the load: which branch was taken.\<close>

datatype diagnostic =
    LoadedFrom string
  | NoModelFileFound
  | ErrorLoading exn

text \<open>Lines 20-32, the body of the \<^verbatim>\<open>try\<close>.\<close>

definition load_model_try ::
  "('x, 's) filesystem \<Rightarrow> exn + (('x, 's) classifier option \<times> diagnostic)" where
  "load_model_try fs =
     (case path_exists fs MODEL_PATH of
        Inl e \<Rightarrow> Inl e
      | Inr True \<Rightarrow>
          (case joblib_load fs MODEL_PATH of
             Inl e \<Rightarrow> Inl e
           | Inr m \<Rightarrow> Inr (Some m, LoadedFrom MODEL_PATH))
      | Inr False \<Rightarrow>
          (case path_exists fs root_model of
             Inl e \<Rightarrow> Inl e
           | Inr True \<Rightarrow>
               (case joblib_load fs root_model of
                  Inl e \<Rightarrow> Inl e
                | Inr m \<Rightarrow> Inr (Some m, LoadedFrom root_model))
           | Inr False \<Rightarrow> Inr (None, NoModelFileFound)))"

text \<open>Lines 19-35: the value of the module-level variable \<^verbatim>\<open>model\<close> after the load.\<close>

definition load_model ::
  "('x, 's) filesystem \<Rightarrow> ('x, 's) classifier option \<times> diagnostic" where
  "load_model fs =
     (case load_model_try fs of
        Inl e \<Rightarrow> (None, ErrorLoading e)
      | Inr r \<Rightarrow> r)"

definition FEATURE_NAMES :: "string list" where
  "FEATURE_NAMES =
     [''radius_mean'', ''texture_mean'', ''perimeter_mean'', ''area_mean'',
      ''smoothness_mean'', ''compactness_mean'', ''concavity_mean'', ''symmetry_mean'']"

record info_json =
  info_name :: string
  info_version :: string
  info_features :: "string list"
  model_loaded :: bool

text \<open>Lines 126-133.\<close>

definition info :: "('x, 's) classifier option \<Rightarrow> info_json" where
  "info model =
     \<lparr>info_name = ''Breast Cancer Prediction API'',
      info_version = ''1.0.0'',
      info_features = FEATURE_NAMES,
      model_loaded = (model \<noteq> None)\<rparr>"

subsection \<open>The order of the checks, as a list of rules\<close>

text \<open>
  The checks that the handler makes before it converts the feature values, written as
  independent rules on a request object with items \<open>kvs\<close> and on the model handle. Each
  rule yields the response of its failure, or nothing when it passes. The handler is
  compared with the first failure of a list of rules.
\<close>

fun first_failure :: "response option list \<Rightarrow> response option" where
  "first_failure [] = None"
| "first_failure (None # rules) = first_failure rules"
| "first_failure (Some r # rules) = Some r"

definition rule_malformed :: "(string \<times> json) list \<Rightarrow> response option" where
  "rule_malformed kvs =
     (if map_of kvs ''features'' = None then Some invalid_request else None)"

definition rule_count :: "(string \<times> json) list \<Rightarrow> response option" where
  "rule_count kvs =
     (case map_of kvs ''features'' of
        None \<Rightarrow> None
      | Some features \<Rightarrow>
          (case py_len features of
             Inl e \<Rightarrow> None
           | Inr n \<Rightarrow> if n \<noteq> 8 then Some (wrong_count n) else None))"

definition rule_model :: "('x, 's) classifier option \<Rightarrow> response option" where
  "rule_model model = (if model = None then Some model_not_loaded else None)"

subsection \<open>Concrete collaborators for instantiating the theorems\<close>

text \<open>
  An array constructor that accepts its argument: the array is the value it was given.
  NumPy accepts every flat list of scalars in this way, whether the elements are finite
  numbers, NaN, Infinity, strings, booleans or null; only the element type of the array
  differs. It is applied below to flat lists only.
\<close>

definition np_array :: "json \<Rightarrow> exn + json" where
  "np_array features = Inr features"

text \<open>Classifier objects: a state of type \<open>nat\<close> counts nothing unless a method says so.\<close>

definition forest :: "(json, nat) classifier" where
  "forest =
     \<lparr>obj_state = 0,
      predict_method = (\<lambda>s X. (Inr [1], s)),
      predict_proba_method = Some (\<lambda>s X. (Inr [[2 / 100, 98 / 100]], s))\<rparr>"

definition hard_voter :: "(json, nat) classifier" where
  "hard_voter =
     \<lparr>obj_state = 0,
      predict_method = (\<lambda>s X. (Inr [0], s)),
      predict_proba_method = None\<rparr>"

definition third_class :: "(json, nat) classifier" where
  "third_class =
     \<lparr>obj_state = 0,
      predict_method = (\<lambda>s X. (Inr [2], s)),
      predict_proba_method = None\<rparr>"

definition coin :: "(json, nat) classifier" where
  "coin =
     \<lparr>obj_state = 0,
      predict_method = (\<lambda>s X. (Inr [0], s)),
      predict_proba_method = Some (\<lambda>s X. (Inr [[1 / 2, 1 / 2]], s))\<rparr>"


text \<open>A classifier with hidden state: its answer alternates from call to call.\<close>

definition alternating :: "(json, nat) classifier" where
  "alternating =
     \<lparr>obj_state = 0,
      predict_method = (\<lambda>s X. (Inr [int (s mod 2)], Suc s)),
      predict_proba_method = None\<rparr>"

definition absent :: "(json, nat) classifier option" where
  "absent = None"

text \<open>Request bodies.\<close>

definition scenario_A :: "(string \<times> json) list" where
  "scenario_A =
     [(''features'',
       JArray [JFloat (1799 / 100), JFloat (1038 / 100), JFloat (1228 / 10), JInt 1001,
               JFloat (1184 / 10000), JFloat (2776 / 10000), JFloat (3001 / 10000),
               JFloat (2419 / 10000)])]"

definition five_features :: "(string \<times> json) list" where
  "five_features =
     [(''features'', JArray [JInt 1, JInt 2, JInt 3, JInt 4, JInt 5])]"

definition three_features :: "(string \<times> json) list" where
  "three_features = [(''features'', JArray [JInt 1, JInt 2, JInt 3])]"

definition text_features :: "(string \<times> json) list" where
  "text_features =
     [(''features'',
       JArray [JString ''a'', JString ''b'', JString ''c'', JString ''d'',
               JString ''e'', JString ''f'', JString ''g'', JString ''h''])]"

definition nan_features :: "(string \<times> json) list" where
  "nan_features =
     [(''features'',
       JArray [JNaN, JInfinity, JInt 3, JInt 4, JInt 5, JInt 6, JInt 7, JInt 8])]"

definition string_features :: "(string \<times> json) list" where
  "string_features = [(''features'', JString ''abc'')]"

definition scalar_features :: "(string \<times> json) list" where
  "scalar_features = [(''features'', JInt 5)]"

text \<open>File systems at start-up.\<close>

definition no_files :: "(json, nat) filesystem" where
  "no_files =
     \<lparr>path_exists = (\<lambda>p. Inr False),
      joblib_load = (\<lambda>p. Inl (Raised ''No such file or directory''))\<rparr>"

definition primary_file :: "(json, nat) filesystem" where
  "primary_file =
     \<lparr>path_exists = (\<lambda>p. Inr (p = MODEL_PATH)),
      joblib_load = (\<lambda>p. if p = MODEL_PATH then Inr forest
                          else Inl (Raised ''No such file or directory''))\<rparr>"

definition fallback_file :: "(json, nat) filesystem" where
  "fallback_file =
     \<lparr>path_exists = (\<lambda>p. Inr (p = root_model)),
      joblib_load = (\<lambda>p. if p = root_model then Inr hard_voter
                          else Inl (Raised ''No such file or directory''))\<rparr>"

definition corrupt_file :: "(json, nat) filesystem" where
  "corrupt_file =
     \<lparr>path_exists = (\<lambda>p. Inr True),
      joblib_load = (\<lambda>p. if p = MODEL_PATH then Inl (Raised ''invalid load key'')
                          else Inr hard_voter)\<rparr>"

section \<open>Properties\<close>

subsection \<open>The handler on a request object that carries the key\<close>

lemma features_key_present:
  "map_of kvs ''features'' = Some v \<Longrightarrow> ''features'' \<in> set (map fst kvs) \<and> kvs \<noteq> []"
  by (auto dest: map_of_SomeD intro: rev_image_eqI)

lemma predict_try_object:
  assumes "map_of kvs ''features'' = Some fs"
  shows "predict_try np model (Inr (JObject kvs)) =
     (case py_len fs of
        Inl e \<Rightarrow> Inl e
      | Inr n \<Rightarrow>
          if n \<noteq> 8 then Inr (wrong_count n, model)
          else
            (case model of
               None \<Rightarrow> Inr (model_not_loaded, model)
             | Some m \<Rightarrow>
                 (case np fs of
                    Inl e \<Rightarrow> Inr (invalid_values e, model)
                  | Inr X \<Rightarrow>
                      (case inference m X of
                         (Inl e, m') \<Rightarrow> Inr (prediction_error e, Some m')
                       | (Inr r, m') \<Rightarrow> Inr (r, Some m')))))"
  using features_key_present [OF assms] assms
  by (simp add: predict_try_def)

lemma predict_no_key:
  assumes "map_of kvs ''features'' = None"
  shows "predict np model (Inr (JObject kvs)) = (invalid_request, model)"
proof -
  from assms have "''features'' \<notin> set (map fst kvs)"
    by (simp add: map_of_eq_None_iff)
  then show ?thesis
    by (simp add: predict_def predict_try_def)
qed

lemma predict_wrong_count:
  assumes "map_of kvs ''features'' = Some fs" and "py_len fs = Inr n" and "n \<noteq> 8"
  shows "predict np model (Inr (JObject kvs)) = (wrong_count n, model)"
  using assms by (simp add: predict_def predict_try_object)

lemma predict_absent:
  assumes "map_of kvs ''features'' = Some fs" and "py_len fs = Inr 8"
  shows "predict np None (Inr (JObject kvs)) = (model_not_loaded, None)"
  using assms by (simp add: predict_def predict_try_object)

lemma predict_present:
  assumes "map_of kvs ''features'' = Some fs" and "py_len fs = Inr 8" and "np fs = Inr X"
  shows "predict np (Some m) (Inr (JObject kvs)) =
     (case inference m X of
        (Inl e, m') \<Rightarrow> (prediction_error e, Some m')
      | (Inr r, m') \<Rightarrow> (r, Some m'))"
  using assms by (simp add: predict_def predict_try_object split: prod.splits sum.splits)

subsection \<open>Wrong feature count\<close>

text \<open>
  Claim C6. A request object whose \<^verbatim>\<open>features\<close> value is a sequence of a length other
  than 8 is answered with status 400 and the message
  \<^verbatim>\<open>Expected 8 features, got <n>\<close>, which names the expected count 8 and the actual
  count. The answer is the same for every array constructor and every model handle,
  present or absent, and the handle comes back as it was, whatever its methods would do:
  no method of the classifier is called. The instance below is the five-element request
  with its message \<^verbatim>\<open>Expected 8 features, got 5\<close>.
\<close>

theorem wrong_feature_count:
  assumes "map_of kvs ''features'' = Some (JArray xs)" and "length xs \<noteq> 8"
  shows "predict np model (Inr (JObject kvs)) =
           ((ErrorJson (''Expected 8 features, got '' @ show_nat (length xs)), 400), model)"
  using predict_wrong_count [OF assms(1), of "length xs" np model] assms(2)
  by (simp add: wrong_count_def)

theorem wrong_feature_count_five:
  "predict np_array (Some alternating) (Inr (JObject five_features)) =
     ((ErrorJson ''Expected 8 features, got 5'', 400), Some alternating)"
  using wrong_feature_count
    [of five_features "[JInt 1, JInt 2, JInt 3, JInt 4, JInt 5]" np_array "Some alternating"]
  by (simp add: five_features_def show_nat.simps)

subsection \<open>Absent model\<close>

text \<open>
  Claim C5, as stated: with no model loaded every call of the handler fails with the
  model-unavailable error, status 500, whatever the input. The handler checks the length of
  the \<^verbatim>\<open>features\<close> value before it looks at the model (line 74 before line 80): a
  three-element request with no model loaded is answered with the wrong-count error,
  status 400.
\<close>

theorem absent_counterexample:
  "predict np_array absent (Inr (JObject three_features)) =
     ((ErrorJson ''Expected 8 features, got 3'', 400), None)"
  by (simp add: predict_def predict_try_def absent_def three_features_def wrong_count_def
      show_nat.simps)

text \<open>
  Claim C5, amended. With no model loaded, every request object whose \<^verbatim>\<open>features\<close>
  value has length 8 is answered with
  \<^verbatim>\<open>Model not loaded. Please check server configuration.\<close> and status 500, whether or
  not the eight elements are numbers and whatever the array constructor would do with
  them; the handler returns a response (no exception leaves it) and the handle stays
  absent, so nothing is inferred.
\<close>

theorem absent_model_unavailable:
  assumes "map_of kvs ''features'' = Some fs" and "py_len fs = Inr 8"
  shows "predict np None (Inr (JObject kvs)) =
           ((ErrorJson ''Model not loaded. Please check server configuration.'', 500), None)"
  using predict_absent [OF assms] by (simp add: model_not_loaded_def)

theorem absent_model_unavailable_witness:
  "predict np_array absent (Inr (JObject scenario_A)) =
     ((ErrorJson ''Model not loaded. Please check server configuration.'', 500), None)
   \<and> predict np_array absent (Inr (JObject text_features)) =
     ((ErrorJson ''Model not loaded. Please check server configuration.'', 500), None)"
  using absent_model_unavailable [of scenario_A _ np_array]
        absent_model_unavailable [of text_features _ np_array]
  by (simp add: scenario_A_def text_features_def absent_def)

subsection \<open>The order of the checks\<close>

text \<open>
  Claim C2, as stated: the three validation rules all come before the model, so that an
  8-element request with values that cannot be converted is answered with the
  invalid-value error 400 and never with the model-unavailable error 500. With no model
  loaded, eight strings are answered with the model-unavailable error, status 500.
\<close>

theorem order_counterexample:
  "predict np_array absent (Inr (JObject text_features)) =
     ((ErrorJson ''Model not loaded. Please check server configuration.'', 500), None)"
  by (simp add: predict_def predict_try_def absent_def text_features_def model_not_loaded_def)

text \<open>
  Claim C2, amended. Take a request object whose \<^verbatim>\<open>features\<close> value, when there is one,
  has a length (a list, a string or an object). The handler makes three checks in this
  order, the first failure giving the response: the key is missing (400), the length is
  not 8 (400), no model is loaded (500). The first two come before any look at the model
  and give their 400 whether the handle is present or absent. The feature values are
  converted only after all three have passed: with no model loaded an 8-element request
  is answered with the model-unavailable error 500 whatever its values are. In each of the
  three failures the response is the same for every array constructor, and the model
  handle comes back untouched: neither the conversion nor the classifier is called.
\<close>

theorem checks_in_order:
  assumes sized: "\<forall>v. map_of kvs ''features'' = Some v \<longrightarrow> (\<exists>n. py_len v = Inr n)"
    and fail: "first_failure [rule_malformed kvs, rule_count kvs, rule_model model] = Some r"
  shows "predict np model (Inr (JObject kvs)) = (r, model)"
proof (cases "map_of kvs ''features''")
  case None
  with fail have "r = invalid_request" by (simp add: rule_malformed_def)
  with None show ?thesis by (simp add: predict_no_key)
next
  case (Some v)
  with sized obtain n where n: "py_len v = Inr n" by blast
  show ?thesis
  proof (cases "n = 8")
    case False
    with fail Some n have "r = wrong_count n"
      by (simp add: rule_malformed_def rule_count_def)
    with False Some n show ?thesis by (simp add: predict_wrong_count [of kvs v n])
  next
    case True
    with fail Some n have "model = None \<and> r = model_not_loaded"
      by (simp add: rule_malformed_def rule_count_def rule_model_def split: if_splits)
    with True Some n show ?thesis by (simp add: predict_absent [of kvs v])
  qed
qed

theorem checks_in_order_witness:
  \<open>predict np_array absent (Inr (JObject [])) =
     ((ErrorJson ''Invalid request. Expected "features" array.'', 400), absent)
   \<and> predict np_array absent (Inr (JObject five_features)) =
     ((ErrorJson ''Expected 8 features, got 5'', 400), absent)
   \<and> predict np_array (Some forest) (Inr (JObject five_features)) =
     ((ErrorJson ''Expected 8 features, got 5'', 400), Some forest)
   \<and> predict np_array (Some forest) (Inr (JObject string_features)) =
     ((ErrorJson ''Expected 8 features, got 3'', 400), Some forest)
   \<and> predict np_array absent (Inr (JObject text_features)) =
     ((ErrorJson ''Model not loaded. Please check server configuration.'', 500), absent)\<close>
  using checks_in_order [of "[]" absent invalid_request np_array]
        checks_in_order [of five_features absent "wrong_count 5" np_array]
        checks_in_order [of five_features "Some forest" "wrong_count 5" np_array]
        checks_in_order [of string_features "Some forest" "wrong_count 3" np_array]
        checks_in_order [of text_features absent model_not_loaded np_array]
  by (simp add: rule_malformed_def rule_count_def rule_model_def
      five_features_def string_features_def text_features_def absent_def
      invalid_request_def wrong_count_def model_not_loaded_def show_nat.simps)

subsection \<open>A features value that is not a sequence\<close>

text \<open>
  Claim C7. A request object whose \<^verbatim>\<open>features\<close> value is the number 5 is not answered
  with the invalid-request error 400: \<^verbatim>\<open>len(features)\<close> raises, the outermost
  \<^verbatim>\<open>except\<close> takes it, and the answer is a server error with status 500, for every
  model handle.
\<close>

theorem scalar_features_server_error:
  "predict np model (Inr (JObject scalar_features)) =
     ((ErrorJson (''Server error: object of type '' @ [CHR 0x27] @ ''int'' @ [CHR 0x27] @ '' has no len()''), 500), model)"
  by (simp add: predict_def predict_try_def scalar_features_def server_error_def)

subsection \<open>Rounding to two places\<close>

lemma py_round2_nearest:
  "\<exists>k::int. py_round2 x = of_int k / 100 \<and> \<bar>of_int k - x * 100\<bar> \<le> 1 / 2"
proof -
  define y where "y = x * 100"
  define f where "f = \<lfloor>y\<rfloor>"
  have lo: "of_int f \<le> y" and hi: "y < of_int f + 1"
    unfolding f_def by linarith+
  consider "y - of_int f < 1 / 2" | "1 / 2 < y - of_int f" | "y - of_int f = 1 / 2"
    by linarith
  then show ?thesis
  proof cases
    case 1
    then have "py_round2 x = of_int f / 100"
      by (simp add: py_round2_def Let_def y_def f_def)
    moreover have "\<bar>of_int f - y\<bar> \<le> 1 / 2" using 1 lo by linarith
    ultimately show ?thesis unfolding y_def by blast
  next
    case 2
    then have "py_round2 x = of_int (f + 1) / 100"
      by (simp add: py_round2_def Let_def y_def f_def)
    moreover have "\<bar>of_int (f + 1) - y\<bar> \<le> 1 / 2" using 2 hi by simp
    ultimately show ?thesis unfolding y_def by blast
  next
    case 3
    then have "py_round2 x = of_int (if even f then f else f + 1) / 100"
      by (simp add: py_round2_def Let_def y_def f_def)
    moreover have "\<bar>of_int (if even f then f else f + 1) - y\<bar> \<le> 1 / 2"
      using 3 by simp
    ultimately show ?thesis unfolding y_def by blast
  qed
qed

lemma py_round2_lower:
  assumes "of_int n \<le> x * 100"
  shows "of_int n / 100 \<le> py_round2 x"
proof -
  obtain k :: int where k: "py_round2 x = of_int k / 100" "\<bar>of_int k - x * 100\<bar> \<le> 1 / 2"
    using py_round2_nearest by blast
  from k(2) assms have "(of_int n :: real) - 1 < of_int k" by linarith
  then have "n - 1 < k" by linarith
  then have "n \<le> k" by simp
  then have "(of_int n :: real) \<le> of_int k" by simp
  with k(1) show ?thesis by (simp add: divide_right_mono)
qed




subsection \<open>The calls on the model\<close>

lemma fold_max_Max: "fold max ps p = Max (set (p # ps))"
  by (simp only: Max.set_eq_fold)


lemma inference_proba:
  assumes "predict_method m (obj_state m) X = (Inr (p # ps), s1)"
    and "predict_proba_method m = Some proba"
    and "proba s1 X = (Inr ((q # qs) # rows), s2)"
  shows "inference m X =
           (Inr (success p (Max (set (q # qs)) * 100)), m\<lparr>obj_state := s2\<rparr>)"
  using assms by (simp add: inference_def fold_max_Max del: set_simps)

lemma inference_origin:
  assumes "inference m X = (Inr r, m')"
  shows "\<exists>p ps s1 c. predict_method m (obj_state m) X = (Inr (p # ps), s1) \<and> r = success p c"
  using assms
  by (auto simp: inference_def split: prod.splits sum.splits list.splits option.splits)


lemma error_responses:
  "invalid_request \<noteq> (PredictionJson d c p, st)"
  "wrong_count n \<noteq> (PredictionJson d c p, st)"
  "model_not_loaded \<noteq> (PredictionJson d c p, st)"
  "invalid_values e \<noteq> (PredictionJson d c p, st)"
  "prediction_error e \<noteq> (PredictionJson d c p, st)"
  "server_error e \<noteq> (PredictionJson d c p, st)"
  by (simp_all add: invalid_request_def wrong_count_def model_not_loaded_def
      invalid_values_def prediction_error_def server_error_def)

lemma predict_origin:
  assumes "fst (predict np model req) = (PredictionJson d c p, st)"
  shows "\<exists>m X m'. model = Some m \<and> inference m X = (Inr (PredictionJson d c p, st), m')"
  using assms
  by (auto simp: predict_def predict_try_def error_responses
      split: sum.splits if_splits bool.splits option.splits prod.splits) blast

subsection \<open>Feature values that are not finite numbers\<close>

lemma predict_accepted_status:
  assumes "map_of kvs ''features'' = Some fs" and "py_len fs = Inr 8" and "np fs = Inr X"
  shows "response_status (fst (predict np (Some m) (Inr (JObject kvs)))) = 200 \<or>
         response_status (fst (predict np (Some m) (Inr (JObject kvs)))) = 500"
proof (cases "inference m X")
  case (Pair res m')
  show ?thesis
  proof (cases res)
    case (Inl e)
    with Pair assms show ?thesis
      by (simp add: predict_present [of kvs fs np X m] prediction_error_def)
  next
    case (Inr r)
    with Pair inference_origin [of m X r m'] obtain p c where "r = success p c" by blast
    with Pair Inr assms show ?thesis
      by (simp add: predict_present [of kvs fs np X m] success_def)
  qed
qed

text \<open>
  Claim C1. With a model loaded, a request whose eight feature values are strings, or
  start with NaN and Infinity, is not answered with the invalid-value error 400 once the
  array constructor accepts the list, as NumPy does: the condition of line 80 is false,
  the \<^verbatim>\<open>try\<close> of lines 86-91 raises nothing, and the list is handed to the model. The
  answer has status 200 or, when a call on the model raises, status 500, for every
  model; a model that answers whatever it is given returns a diagnosis for the eight
  strings.
\<close>

theorem non_numeric_values_reach_model:
  "(response_status (fst (predict np_array (Some m) (Inr (JObject text_features)))) = 200 \<or>
    response_status (fst (predict np_array (Some m) (Inr (JObject text_features)))) = 500)
   \<and> (response_status (fst (predict np_array (Some m) (Inr (JObject nan_features)))) = 200 \<or>
    response_status (fst (predict np_array (Some m) (Inr (JObject nan_features)))) = 500)
   \<and> predict np_array (Some forest) (Inr (JObject text_features)) =
       ((PredictionJson ''Malignant'' 98 1, 200), Some forest)"
proof (intro conjI)
  show "response_status (fst (predict np_array (Some m) (Inr (JObject text_features)))) = 200 \<or>
        response_status (fst (predict np_array (Some m) (Inr (JObject text_features)))) = 500"
    by (rule predict_accepted_status [of text_features "snd (hd text_features)" np_array
          "snd (hd text_features)" m])
       (simp_all add: text_features_def np_array_def)
  show "response_status (fst (predict np_array (Some m) (Inr (JObject nan_features)))) = 200 \<or>
        response_status (fst (predict np_array (Some m) (Inr (JObject nan_features)))) = 500"
    by (rule predict_accepted_status [of nan_features "snd (hd nan_features)" np_array
          "snd (hd nan_features)" m])
       (simp_all add: nan_features_def np_array_def)
  show "predict np_array (Some forest) (Inr (JObject text_features)) =
          ((PredictionJson ''Malignant'' 98 1, 200), Some forest)"
    by (simp add: predict_def predict_try_def text_features_def np_array_def forest_def
        inference_def success_def py_round2_def)
qed

subsection \<open>The diagnosis mapping\<close>

text \<open>
  Claim C3, as stated: a class index outside 0 and 1 is reported as a failure and not
  turned into a diagnosis. A classifier that answers class 2 gets a successful response,
  status 200, with diagnosis Benign and raw index 2.
\<close>

theorem diagnosis_counterexample:
  "predict np_array (Some third_class) (Inr (JObject scenario_A)) =
     ((PredictionJson ''Benign'' 100 2, 200), Some third_class)"
  by (simp add: predict_def predict_try_def scenario_A_def np_array_def third_class_def inference_def
      success_def py_round2_def)

text \<open>
  Claim C3, amended. Every successful response has status 200, and its diagnosis is
  Malignant when its raw class index is 1 and Benign for every other raw class index, 0
  included; there is no third diagnosis. The raw class index is the first label that the
  model's \<^verbatim>\<open>predict\<close> returned, whatever its value: a label outside 0 and 1 is not
  rejected.
\<close>

theorem diagnosis_mapping:
  assumes "fst (predict np model req) = (PredictionJson d c p, st)"
  shows "st = 200 \<and> d = (if p = 1 then ''Malignant'' else ''Benign'') \<and>
         (\<exists>m X ps s1. model = Some m \<and> predict_method m (obj_state m) X = (Inr (p # ps), s1))"
proof -
  from predict_origin [OF assms] obtain m X m'
    where m: "model = Some m" and inf: "inference m X = (Inr (PredictionJson d c p, st), m')"
    by blast
  from inference_origin [OF inf] obtain p' ps s1 c'
    where call: "predict_method m (obj_state m) X = (Inr (p' # ps), s1)"
      and r: "(PredictionJson d c p, st) = success p' c'"
    by blast
  from r have "p' = p" and "st = 200" and "d = (if p = 1 then ''Malignant'' else ''Benign'')"
    by (simp_all add: success_def)
  with m call show ?thesis by blast
qed

theorem diagnosis_mapping_witness:
  "fst (predict np_array (Some forest) (Inr (JObject scenario_A))) =
     (PredictionJson ''Malignant'' 98 1, 200)
   \<and> fst (predict np_array (Some hard_voter) (Inr (JObject scenario_A))) =
     (PredictionJson ''Benign'' 100 0, 200)"
proof -
  have a: "fst (predict np_array (Some forest) (Inr (JObject scenario_A))) =
             (PredictionJson (if (1::int) = 1 then ''Malignant'' else ''Benign'') 98 1, 200)"
    by (simp add: predict_def predict_try_def scenario_A_def np_array_def forest_def inference_def
        success_def py_round2_def)
  have b: "fst (predict np_array (Some hard_voter) (Inr (JObject scenario_A))) =
             (PredictionJson (if (0::int) = 1 then ''Malignant'' else ''Benign'') 100 0, 200)"
    by (simp add: predict_def predict_try_def scenario_A_def np_array_def hard_voter_def inference_def
        success_def py_round2_def)
  show ?thesis
    using diagnosis_mapping [OF a] diagnosis_mapping [OF b] a b by simp
qed

subsection \<open>The confidence score\<close>





text \<open>
  Claim C10. With a probability function that returns for the two classes two
  non-negative values that sum to 1, the confidence of the response is at least 50.
\<close>

theorem confidence_at_least_half:
  assumes "map_of kvs ''features'' = Some fs" and "py_len fs = Inr 8" and "np fs = Inr X"
    and "predict_method m (obj_state m) X = (Inr (p # ps), s1)"
    and "predict_proba_method m = Some proba"
    and "proba s1 X = (Inr ([p0, p1] # rows), s2)"
    and "0 \<le> p0" and "0 \<le> p1" and "p0 + p1 = 1"
  shows "\<exists>c. response_confidence (fst (predict np (Some m) (Inr (JObject kvs)))) = Some c \<and> 50 \<le> c"
proof -
  have "inference m X = (Inr (success p (Max (set [p0, p1]) * 100)), m\<lparr>obj_state := s2\<rparr>)"
    using inference_proba [of m X p ps s1 proba p0 "[p1]" rows s2] assms(4,5,6) by blast
  then have resp: "fst (predict np (Some m) (Inr (JObject kvs))) = success p (max p0 p1 * 100)"
    using assms(1-3) by (simp add: predict_present [of kvs fs np X m])
  have "1 / 2 \<le> max p0 p1" using assms(9) by linarith
  then have "of_int 5000 \<le> max p0 p1 * 100 * 100" by simp
  from py_round2_lower [OF this] have "50 \<le> py_round2 (max p0 p1 * 100)" by simp
  then show ?thesis unfolding resp by (simp add: success_def)
qed

theorem confidence_at_least_half_witness:
  "response_confidence (fst (predict np_array (Some coin) (Inr (JObject scenario_A)))) = Some 50"
proof -
  have a: "map_of scenario_A ''features'' = Some (snd (hd scenario_A))"
    and b: "py_len (snd (hd scenario_A)) = Inr 8"
    and c: "np_array (snd (hd scenario_A)) = Inr (snd (hd scenario_A))"
    by (simp_all add: scenario_A_def np_array_def)
  have d: "predict_method coin (obj_state coin) (snd (hd scenario_A)) = (Inr [0], 0)"
    and e: "predict_proba_method coin = Some (\<lambda>s X. (Inr [[1 / 2, 1 / 2]], s))"
    by (simp_all add: coin_def)
  have f: "(\<lambda>s X. (Inr [[1 / 2, 1 / 2 :: real]], s)) (0::nat) (snd (hd scenario_A)) =
             (Inr ([1 / 2, 1 / 2] # []) :: exn + real list list, 0)"
    by simp
  have "\<exists>c. response_confidence (fst (predict np_array (Some coin) (Inr (JObject scenario_A)))) = Some c
            \<and> 50 \<le> c"
    using confidence_at_least_half [of scenario_A "snd (hd scenario_A)" np_array
      "snd (hd scenario_A)" coin 0 "[]" 0 "\<lambda>s X. (Inr [[1 / 2, 1 / 2]], s)" "1 / 2" "1 / 2" "[]" 0]
      a b c d e f
    by simp
  moreover have "response_confidence (fst (predict np_array (Some coin) (Inr (JObject scenario_A)))) = Some 50"
    by (simp add: predict_def predict_try_def scenario_A_def np_array_def coin_def inference_def
        success_def py_round2_def)
  ultimately show ?thesis by simp
qed

subsection \<open>The model load\<close>

text \<open>
  Claim C8. The load at start-up always yields a value for \<^verbatim>\<open>model\<close>. When the primary
  file exists and loads, the handle is that model; when the primary file does not exist
  and the fallback file exists and loads, the handle is the fallback model; when neither
  exists the handle is absent; and whenever the probe of a path or the deserialization
  raises, the handle is absent and the exception is kept as the diagnostic, not
  propagated. In each case the info handler answers, with the feature names and with
  \<^verbatim>\<open>model_loaded\<close> telling whether the handle is present.
\<close>

theorem load_model_cases:
  "(path_exists fs MODEL_PATH = Inr True \<and> joblib_load fs MODEL_PATH = Inr m \<longrightarrow>
      load_model fs = (Some m, LoadedFrom MODEL_PATH))
   \<and> (path_exists fs MODEL_PATH = Inr False \<and> path_exists fs root_model = Inr True \<and>
      joblib_load fs root_model = Inr m \<longrightarrow>
      load_model fs = (Some m, LoadedFrom root_model))
   \<and> (path_exists fs MODEL_PATH = Inr False \<and> path_exists fs root_model = Inr False \<longrightarrow>
      load_model fs = (None, NoModelFileFound))
   \<and> (path_exists fs MODEL_PATH = Inr True \<and> joblib_load fs MODEL_PATH = Inl e \<longrightarrow>
      load_model fs = (None, ErrorLoading e))
   \<and> (path_exists fs MODEL_PATH = Inr False \<and> path_exists fs root_model = Inr True \<and>
      joblib_load fs root_model = Inl e \<longrightarrow>
      load_model fs = (None, ErrorLoading e))
   \<and> (path_exists fs MODEL_PATH = Inl e \<longrightarrow> load_model fs = (None, ErrorLoading e))
   \<and> (path_exists fs MODEL_PATH = Inr False \<and> path_exists fs root_model = Inl e \<longrightarrow>
      load_model fs = (None, ErrorLoading e))
   \<and> model_loaded (info (fst (load_model fs))) = (fst (load_model fs) \<noteq> None)
   \<and> info_features (info (fst (load_model fs))) = FEATURE_NAMES"
  by (simp add: load_model_def load_model_try_def info_def)

theorem load_model_cases_witness:
  "load_model primary_file = (Some forest, LoadedFrom ''model/breast_cancer_model.pkl'')
   \<and> load_model fallback_file = (Some hard_voter, LoadedFrom ''model.pkl'')
   \<and> load_model no_files = (None, NoModelFileFound)
   \<and> load_model corrupt_file = (None, ErrorLoading (Raised ''invalid load key''))
   \<and> model_loaded (info (fst (load_model primary_file)))
   \<and> \<not> model_loaded (info (fst (load_model no_files)))
   \<and> \<not> model_loaded (info (fst (load_model corrupt_file)))"
  using load_model_cases [of primary_file forest "Raised []"]
        load_model_cases [of fallback_file hard_voter "Raised []"]
        load_model_cases [of no_files forest "Raised []"]
        load_model_cases [of corrupt_file forest "Raised ''invalid load key''"]
  by (simp add: primary_file_def fallback_file_def no_files_def corrupt_file_def
      MODEL_PATH_def root_model_def info_def)

end
